theory Spec2Isabelle
  imports Complex_Main "HOL-Library.Word" "HOL-Library.Signed_Division"
begin

section \<open>The re-encryption protocol of \<open>ocs/protocol/ocs.go\<close>\<close>

text \<open>
  The protocol runs on a tree of nodes. The root (the coordinator) broadcasts a request
  in \<open>Start\<close>, every other node answers in \<open>reencrypt\<close>, and the root collects the
  answers in \<open>reencryptReply\<close>. The functions below follow \<open>ocs.go\<close> line by line.
  Mutation of the \<open>OCS\<close> struct is explicit state passing, a Go \<open>error\<close> is a
  \<open>string option\<close> (\<open>None\<close> is \<open>nil\<close>), and a panic is the left summand of the result.
\<close>

subsection \<open>The group, as the code uses it\<close>

text \<open>
  \<open>cothority.Suite\<close> comes from the kyber library, which is not part of this repository.
  Points and scalars are therefore type parameters: points form an additive group
  (\<open>Point().Add\<close> is \<open>+\<close>), scalars a commutative ring (\<open>Scalar().Add\<close>, \<open>Scalar().Mul\<close>
  and \<open>Scalar().Neg\<close> are \<open>+\<close>, \<open>*\<close> and unary minus). The remaining operations are
  fields of a suite: \<open>Mul s p\<close> is \<open>Point().Mul(s, p)\<close>, \<open>Base\<close> is the standard base that
  \<open>Point().Mul(s, nil)\<close> multiplies, and \<open>Hash [a, b, c]\<close> is the scalar
  \<open>Scalar().SetBytes(h.Sum(nil))\<close> after \<open>a\<close>, \<open>b\<close> and \<open>c\<close> were marshalled, in this
  order, into a fresh SHA-256 state \<open>h\<close>.

  A \<open>kyber.Point\<close> field is an interface value and may be nil: it is a \<open>'p option\<close>.
  \<open>Point().Mul(s, nil)\<close> multiplies the base, as the code itself relies on;
  \<open>Point().Add\<close> with a nil operand panics.
\<close>

record ('s, 'p) suite =
  Mul :: "'s \<Rightarrow> 'p \<Rightarrow> 'p"
  Base :: "'p"
  Hash :: "'p list \<Rightarrow> 's"

text \<open>The laws of scalar multiplication that kyber's groups satisfy.\<close>

definition suite_ok :: "('s::comm_ring_1, 'p::ab_group_add) suite \<Rightarrow> bool" where
  "suite_ok S \<longleftrightarrow>
     (\<forall>a b P. Mul S (a + b) P = Mul S a P + Mul S b P) \<and>
     (\<forall>a b P. Mul S (a * b) P = Mul S a (Mul S b P)) \<and>
     (\<forall>a P Q. Mul S a (P + Q) = Mul S a P + Mul S a Q)"

subsection \<open>Data\<close>

text \<open>
  \<open>share.PubShare\<close> of kyber: an index and a point. \<open>SharedSecret\<close>, \<open>Reencrypt\<close> and
  \<open>ReencryptReply\<close> are declared in a file of the package that is not among the sources;
  their fields are the ones \<open>ocs.go\<close> reads and writes. The scalar \<open>V\<close> of
  \<open>SharedSecret\<close> is called \<open>Vsec\<close> here, since \<open>PubShare\<close> has a field \<open>V\<close> too.
  A pointer that the code compares with \<open>nil\<close>, or sets to \<open>nil\<close> itself, is an option, and
  so are the points \<open>U\<close> and \<open>Xc\<close> of a request, which \<open>Start\<close> copies from \<open>o.U\<close> and
  \<open>o.Xc\<close>.
\<close>

record 'p PubShare =
  I :: int
  V :: "'p"

record 's SharedSecret =
  Index :: int
  Vsec :: "'s"

record 'p Reencrypt =
  rc_U :: "'p option"
  rc_Xc :: "'p option"
  rc_VerificationData :: "8 word list option"

record ('s, 'p) ReencryptReply =
  Ui :: "'p PubShare option"
  Ei :: "'s option"
  Fi :: "'s option"

datatype dest = ToNode nat | ToParent

datatype ('s, 'p) message =
  MsgReencrypt "'p Reencrypt"
| MsgReencryptReply "('s, 'p) ReencryptReply"

text \<open>
  What the code asks of the embedded \<open>onet.TreeNodeInstance\<close>: the roster
  (\<open>n.Roster().List\<close>), the children of this node (\<open>o.Children()\<close>), all nodes of the tree
  (\<open>o.List()\<close>) and this node itself. Nodes are numbers.
\<close>

record TreeNodeInstance =
  Roster_List :: "nat list"
  Children :: "nat list"
  Tree_List :: "nat list"
  TreeNode :: nat

text \<open>
  The struct \<open>OCS\<close>. \<open>Reencrypted\<close> is the channel: the values sent on it so far, oldest
  first. \<open>finished\<close> records that \<open>Done()\<close> was called and \<open>outbox\<close> the messages handed
  to the transport, in order. \<open>Failures\<close> and \<open>Threshold\<close> are Go \<open>int\<close>s; they only
  count nodes and replies, far below the 64-bit range, so they are \<open>int\<close> here.
  \<open>Poly\<close> is the evaluation \<open>i \<mapsto> o.Poly.Eval(i).V\<close> of the public polynomial.
\<close>

record ('s, 'p) OCS =
  TreeNodeInstance :: TreeNodeInstance
  Shared :: "'s SharedSecret option"
  Poly :: "int \<Rightarrow> 'p"
  U :: "'p option"
  Xc :: "'p option"
  Threshold :: int
  VerificationData :: "8 word list"
  Failures :: int
  Verify :: "('p Reencrypt \<Rightarrow> bool) option"
  Reencrypted :: "bool list"
  Uis :: "'p PubShare option list"
  replies :: "('s, 'p) ReencryptReply list"
  finished :: bool
  outbox :: "(dest \<times> ('s, 'p) message) list"

datatype abort = NilDereference | IndexOutOfRange

type_synonym error = "string option"

subsection \<open>\<open>NewOCS\<close>\<close>

text \<open>
  Go's \<open>/\<close> on \<open>int\<close> truncates towards zero: it is \<open>sdiv\<close>, not the flooring \<open>div\<close> of
  HOL. The struct literal leaves every other field at its zero value, so \<open>Shared\<close>, \<open>U\<close>,
  \<open>Xc\<close> and \<open>Verify\<close> are nil. The model has no nil polynomial: the evaluation that the
  caller assigns to \<open>Poly\<close> before \<open>Start\<close> is an argument. \<open>reg\<close> is what
  \<open>RegisterHandlers\<close> returns.
\<close>

definition NewOCS ::
  "TreeNodeInstance \<Rightarrow> (int \<Rightarrow> 'p) \<Rightarrow> error \<Rightarrow> string + ('s, 'p) OCS" where
  "NewOCS n poly reg =
     (let o1 = \<lparr> TreeNodeInstance = n, Shared = None, Poly = poly, U = None, Xc = None,
                 Threshold = int (length (Roster_List n))
                             - (int (length (Roster_List n)) - 1) sdiv 3,
                 VerificationData = [], Failures = 0, Verify = None, Reencrypted = [],
                 Uis = [], replies = [], finished = False, outbox = [] \<rparr>
      in case reg of Some err \<Rightarrow> Inl err | None \<Rightarrow> Inr o1)"

subsection \<open>What onet does for the protocol\<close>

text \<open>
  \<open>Done\<close>, \<open>SendToParent\<close> and \<open>Broadcast\<close> are methods of onet's \<open>TreeNodeInstance\<close>.
  \<open>Done\<close> closes the instance. \<open>SendToParent\<close> hands one message to the transport and
  returns the transport's error \<open>perr\<close>. \<open>Broadcast\<close> sends the message to every node of
  the tree but this one and returns the errors of the sends that failed; \<open>send_err\<close>
  says which sends fail. A send on the channel \<open>Reencrypted\<close> appends to its history.
\<close>

definition Done :: "('s, 'p) OCS \<Rightarrow> ('s, 'p) OCS" where
  "Done ocs = ocs\<lparr>finished := True\<rparr>"

definition send_Reencrypted :: "bool \<Rightarrow> ('s, 'p) OCS \<Rightarrow> ('s, 'p) OCS" where
  "send_Reencrypted b ocs = ocs\<lparr>Reencrypted := Reencrypted ocs @ [b]\<rparr>"

definition SendToParent ::
  "error \<Rightarrow> ('s, 'p) OCS \<Rightarrow> ('s, 'p) message \<Rightarrow> error \<times> ('s, 'p) OCS" where
  "SendToParent perr ocs msg = (perr, ocs\<lparr>outbox := outbox ocs @ [(ToParent, msg)]\<rparr>)"

definition Broadcast ::
  "(nat \<Rightarrow> error) \<Rightarrow> ('s, 'p) OCS \<Rightarrow> ('s, 'p) message \<Rightarrow> string list \<times> ('s, 'p) OCS" where
  "Broadcast send_err ocs msg =
     (let targets = filter (\<lambda>node. node \<noteq> TreeNode (TreeNodeInstance ocs))
                      (Tree_List (TreeNodeInstance ocs))
      in (List.map_filter send_err targets,
          ocs\<lparr>outbox := outbox ocs @ map (\<lambda>node. (ToNode node, msg)) targets\<rparr>))"

subsection \<open>\<open>Start\<close>\<close>

definition Start :: "(nat \<Rightarrow> error) \<Rightarrow> ('s, 'p) OCS \<Rightarrow> error \<times> ('s, 'p) OCS" where
  "Start send_err ocs =
     (case Shared ocs of
        None \<Rightarrow> (Some ''please initialize Shared first'', ocs)
      | Some sh \<Rightarrow>
          (case U ocs of
             None \<Rightarrow> (Some ''please initialize U first'', ocs)
           | Some u \<Rightarrow>
               (let rc = \<lparr> rc_U = U ocs, rc_Xc = Xc ocs,
                           rc_VerificationData =
                             (if 0 < length (VerificationData ocs)
                              then Some (VerificationData ocs) else None) \<rparr>
                in if (case Verify ocs of Some v \<Rightarrow> \<not> v rc | None \<Rightarrow> False)
                   then (Some ''refused to reencrypt'', Done (send_Reencrypted False ocs))
                   else (case Broadcast send_err ocs (MsgReencrypt rc) of
                           (errs, ocs') \<Rightarrow>
                             if int (length errs)
                                > (int (length (Roster_List (TreeNodeInstance ocs'))) - 1) sdiv 3
                             then (Some ''too many nodes failed in broadcast'', ocs')
                             else (None, ocs')))))"

subsection \<open>\<open>getUI\<close> and \<open>reencrypt\<close>\<close>

text \<open>\<open>Point().Mul(s, p)\<close> for a point \<open>p\<close> that may be nil.\<close>

definition Point_Mul :: "('s, 'p) suite \<Rightarrow> 's \<Rightarrow> 'p option \<Rightarrow> 'p" where
  "Point_Mul S s p = Mul S s (case p of None \<Rightarrow> Base S | Some q \<Rightarrow> q)"

text \<open>
  \<open>getUI\<close> reads \<open>o.Shared.V\<close>: a nil \<open>Shared\<close> is a nil-pointer panic. Its two points go
  into \<open>Point().Mul\<close> only, and the sum is taken of the two products.
\<close>

definition getUI ::
  "('s, 'p::ab_group_add) suite \<Rightarrow> ('s, 'p) OCS \<Rightarrow> 'p option \<Rightarrow> 'p option
     \<Rightarrow> abort + ('p PubShare \<times> error)" where
  "getUI S ocs u xc =
     (case Shared ocs of
        None \<Rightarrow> Inl NilDereference
      | Some sh \<Rightarrow>
          (let v = Point_Mul S (Vsec sh) u;
               v' = v + Point_Mul S (Vsec sh) xc
           in Inr (\<lparr> I = Index sh, V = v' \<rparr>, None)))"

text \<open>
  The handler of a request at a participant. \<open>si\<close> is the scalar picked from the random
  stream. The deferred \<open>Done()\<close> runs when the handler returns. Neither \<open>r.U\<close> nor \<open>r.Xc\<close>
  is compared with nil: when the hook does not refuse, \<open>Point().Add(r.U, r.Xc)\<close> panics
  on a request that lacks one of them, and nothing is sent.
\<close>

definition reencrypt ::
  "('s::comm_ring_1, 'p::ab_group_add) suite \<Rightarrow> 's \<Rightarrow> error \<Rightarrow> ('s, 'p) OCS \<Rightarrow> 'p Reencrypt
     \<Rightarrow> abort + (error \<times> ('s, 'p) OCS)" where
  "reencrypt S si perr ocs r =
     (case getUI S ocs (rc_U r) (rc_Xc r) of
        Inl a \<Rightarrow> Inl a
      | Inr (ui, Some err) \<Rightarrow> Inr (None, Done ocs)
      | Inr (ui, None) \<Rightarrow>
          if (case Verify ocs of Some v \<Rightarrow> \<not> v r | None \<Rightarrow> False)
          then (case SendToParent perr ocs
                       (MsgReencryptReply \<lparr> Ui = None, Ei = None, Fi = None \<rparr>) of
                  (e, ocs') \<Rightarrow> Inr (e, Done ocs'))
          else (case rc_U r of None \<Rightarrow> Inl NilDereference | Some u \<Rightarrow>
                case rc_Xc r of None \<Rightarrow> Inl NilDereference | Some xc \<Rightarrow>
                  (let uiHat = Mul S si (u + xc);
                       hiHat = Mul S si (Base S);
                       ei = Hash S [V ui, uiHat, hiHat]
                   in case Shared ocs of
                        None \<Rightarrow> Inl NilDereference
                      | Some sh \<Rightarrow>
                          (case SendToParent perr ocs
                                  (MsgReencryptReply
                                     \<lparr> Ui = Some ui, Ei = Some ei,
                                       Fi = Some (si + ei * Vsec sh) \<rparr>) of
                             (e, ocs') \<Rightarrow> Inr (e, Done ocs')))))"

subsection \<open>\<open>reencryptReply\<close>\<close>

text \<open>
  The scalar \<open>e\<close> that the root recomputes for one reply (the hash of the loop body):
  \<open>u\<close> and \<open>xc\<close> are \<open>o.U\<close> and \<open>o.Xc\<close>, \<open>gxi\<close> is \<open>o.Poly.Eval(r.Ui.I).V\<close>, \<open>uiv\<close> is
  \<open>r.Ui.V\<close>.
\<close>

definition challenge ::
  "('s::comm_ring_1, 'p::ab_group_add) suite \<Rightarrow> 'p \<Rightarrow> 'p \<Rightarrow> 'p \<Rightarrow> 'p \<Rightarrow> 's \<Rightarrow> 's \<Rightarrow> 's" where
  "challenge S u xc gxi uiv ei fi =
     (let ufi = Mul S fi (u + xc);
          uiei = Mul S (- ei) uiv;
          uiHat = ufi + uiei;
          gfi = Mul S fi (Base S);
          hiei = Mul S (- ei) gxi;
          hiHat = gfi + hiei
      in Hash S [uiv, uiHat, hiHat])"

text \<open>
  One iteration of \<open>for _, r := range o.replies\<close>. A nil \<open>o.U\<close>, \<open>o.Xc\<close>, \<open>r.Fi\<close>, \<open>r.Ei\<close>
  or \<open>r.Ui\<close> makes kyber or the field access panic; \<open>o.Uis[r.Ui.I] = r.Ui\<close> panics when the index is
  outside the slice. A reply whose hash differs is only logged.
\<close>

definition verify_reply ::
  "('s::comm_ring_1, 'p::ab_group_add) suite \<Rightarrow> ('s, 'p) OCS \<Rightarrow> ('s, 'p) ReencryptReply
     \<Rightarrow> abort + ('s, 'p) OCS" where
  "verify_reply S ocs r =
     (case U ocs of None \<Rightarrow> Inl NilDereference | Some u \<Rightarrow>
      case Xc ocs of None \<Rightarrow> Inl NilDereference | Some xc \<Rightarrow>
      case Fi r of None \<Rightarrow> Inl NilDereference | Some fi \<Rightarrow>
      case Ei r of None \<Rightarrow> Inl NilDereference | Some ei \<Rightarrow>
      case Ui r of None \<Rightarrow> Inl NilDereference | Some ui \<Rightarrow>
        if challenge S u xc (Poly ocs (I ui)) (V ui) ei fi = ei
        then (if 0 \<le> I ui \<and> I ui < int (length (Uis ocs))
              then Inr (ocs\<lparr>Uis := (Uis ocs)[nat (I ui) := Some ui]\<rparr>)
              else Inl IndexOutOfRange)
        else Inr ocs)"

fun verify_replies ::
  "('s::comm_ring_1, 'p::ab_group_add) suite \<Rightarrow> ('s, 'p) OCS \<Rightarrow> ('s, 'p) ReencryptReply list
     \<Rightarrow> abort + ('s, 'p) OCS" where
  "verify_replies S ocs [] = Inr ocs"
| "verify_replies S ocs (r # rs) =
     (case verify_reply S ocs r of
        Inl a \<Rightarrow> Inl a
      | Inr ocs' \<Rightarrow> verify_replies S ocs' rs)"

text \<open>
  The handler of a reply at the root. \<open>o.Uis[0], err = o.getUI(o.U, o.Xc)\<close> calls
  \<open>getUI\<close> first and then assigns, which panics on an empty slice.
\<close>

definition reencryptReply ::
  "('s::comm_ring_1, 'p::ab_group_add) suite \<Rightarrow> ('s, 'p) OCS \<Rightarrow> ('s, 'p) ReencryptReply
     \<Rightarrow> abort + (error \<times> ('s, 'p) OCS)" where
  "reencryptReply S ocs rr =
     (if Ui rr = None
      then (let ocs1 = ocs\<lparr>Failures := Failures ocs + 1\<rparr>
            in if Failures ocs1
                    \<ge> int (length (Children (TreeNodeInstance ocs1))) - Threshold ocs1
               then Inr (None, Done (send_Reencrypted False ocs1))
               else Inr (None, ocs1))
      else (let ocs1 = ocs\<lparr>replies := replies ocs @ [rr]\<rparr>
            in if int (length (replies ocs1)) \<ge> Threshold ocs1 - 1
               then (let ocs2 = ocs1\<lparr>Uis := replicate
                                   (length (Tree_List (TreeNodeInstance ocs1))) None\<rparr>
                     in case getUI S ocs2 (U ocs2) (Xc ocs2) of
                          Inl a \<Rightarrow> Inl a
                        | Inr (ui0, err) \<Rightarrow>
                            if Uis ocs2 = [] then Inl IndexOutOfRange
                            else (let ocs3 = ocs2\<lparr>Uis := (Uis ocs2)[0 := Some ui0]\<rparr>
                                  in case err of
                                       Some e \<Rightarrow> Inr (Some e, ocs3)
                                     | None \<Rightarrow>
                                         (case verify_replies S ocs3 (replies ocs3) of
                                            Inl a \<Rightarrow> Inl a
                                          | Inr ocs4 \<Rightarrow>
                                              Inr (None,
                                                   Done (send_Reencrypted True ocs4)))))
               else Inr (None, ocs1)))"

text \<open>
  The replies of one run at the root, in arrival order. onet calls the handler for one
  message at a time; once \<open>Done()\<close> was called the instance is closed and a later reply
  no longer reaches the handler. The error a handler returns is only logged.
\<close>

fun run ::
  "('s::comm_ring_1, 'p::ab_group_add) suite \<Rightarrow> ('s, 'p) OCS \<Rightarrow> ('s, 'p) ReencryptReply list
     \<Rightarrow> abort + ('s, 'p) OCS" where
  "run S ocs [] = Inr ocs"
| "run S ocs (rr # rrs) =
     (if finished ocs then run S ocs rrs
      else (case reencryptReply S ocs rr of
              Inl a \<Rightarrow> Inl a
            | Inr (err, ocs') \<Rightarrow> run S ocs' rrs))"

text \<open>The shares the root publishes: the filled slots of \<open>Uis\<close>.\<close>

definition accepted :: "('s, 'p) OCS \<Rightarrow> 'p PubShare list" where
  "accepted ocs = List.map_filter (\<lambda>x. x) (Uis ocs)"

subsection \<open>A small cluster to run the code on\<close>

text \<open>
  Integers as scalars and as points, with base 1. The secret of the node with index
  \<open>i\<close> is \<open>5 + 2 * i\<close>, so the public polynomial evaluates to \<open>(5 + 2 * i) * 1\<close>. The
  ciphertext point is 2 and the client's key is 3. \<open>cluster n\<close> is the star of \<open>n\<close>
  nodes as the root 0 sees it.
\<close>

definition toy :: "(int, int) suite" where
  "toy = \<lparr> Mul = (\<lambda>s p. s * p), Base = 1, Hash = (\<lambda>ps. foldr (\<lambda>p h. p + 2 * h) ps 0) \<rparr>"

definition toy_poly :: "int \<Rightarrow> int" where
  "toy_poly i = 5 + 2 * i"

definition cluster :: "nat \<Rightarrow> TreeNodeInstance" where
  "cluster n = \<lparr> Roster_List = [0..<n], Children = [1..<n], Tree_List = [0..<n], TreeNode = 0 \<rparr>"

definition root :: "nat \<Rightarrow> (int, int) OCS" where
  "root n = (projr (NewOCS (cluster n) toy_poly None))
              \<lparr> Shared := Some \<lparr> Index = 0, Vsec = 5 \<rparr>, U := Some 2, Xc := Some 3 \<rparr>"

definition participant :: "nat \<Rightarrow> nat \<Rightarrow> (int, int) OCS" where
  "participant n i = (projr (NewOCS (cluster n\<lparr>Children := [], TreeNode := i\<rparr>) toy_poly None))
              \<lparr> Shared := Some \<lparr> Index = int i, Vsec = toy_poly (int i) \<rparr> \<rparr>"

definition request :: "int Reencrypt" where
  "request = \<lparr> rc_U = Some 2, rc_Xc = Some 3, rc_VerificationData = None \<rparr>"

text \<open>
  The replies of the nodes 1, 2 and 3 to \<open>request\<close> (with random scalars 1, 2 and 3),
  a refusal, the reply of node 2 with its share value changed after generation and
  the reply of node 3 with its response changed.
\<close>

definition reply1 :: "(int, int) ReencryptReply" where
  "reply1 = \<lparr> Ui = Some \<lparr> I = 1, V = 35 \<rparr>, Ei = Some 49, Fi = Some 344 \<rparr>"

definition reply2 :: "(int, int) ReencryptReply" where
  "reply2 = \<lparr> Ui = Some \<lparr> I = 2, V = 45 \<rparr>, Ei = Some 73, Fi = Some 659 \<rparr>"

definition reply3 :: "(int, int) ReencryptReply" where
  "reply3 = \<lparr> Ui = Some \<lparr> I = 3, V = 55 \<rparr>, Ei = Some 97, Fi = Some 1070 \<rparr>"

definition refusal :: "(int, int) ReencryptReply" where
  "refusal = \<lparr> Ui = None, Ei = None, Fi = None \<rparr>"

definition tampered2 :: "(int, int) ReencryptReply" where
  "tampered2 = reply2\<lparr> Ui := Some \<lparr> I = 2, V = 46 \<rparr> \<rparr>"

definition tampered3 :: "(int, int) ReencryptReply" where
  "tampered3 = reply3\<lparr> Fi := Some 1071 \<rparr>"

section \<open>Properties\<close>

subsection \<open>Scalar multiplication\<close>

lemma Mul_zero:
  assumes "suite_ok S" shows "Mul S 0 P = 0"
proof -
  from assms have "Mul S (0 + 0) P = Mul S 0 P + Mul S 0 P"
    unfolding suite_ok_def by blast
  then show ?thesis by simp
qed

lemma Mul_neg:
  assumes "suite_ok S" shows "Mul S (- a) P = - Mul S a P"
proof -
  from assms have "Mul S (- a + a) P = Mul S (- a) P + Mul S a P"
    unfolding suite_ok_def by blast
  with Mul_zero [OF assms, of P] have "Mul S (- a) P + Mul S a P = 0"
    by simp
  then show ?thesis
    by (simp add: eq_neg_iff_add_eq_0)
qed

lemma commitment_recovered:
  assumes "suite_ok S"
  shows "Mul S (si + e * x) P + Mul S (- e) (Mul S x P) = Mul S si P"
proof -
  from assms have "Mul S (si + e * x) P = Mul S si P + Mul S (e * x) P"
    unfolding suite_ok_def by blast
  moreover from assms have "Mul S (e * x) P = Mul S e (Mul S x P)"
    unfolding suite_ok_def by blast
  ultimately show ?thesis
    by (simp add: Mul_neg [OF assms])
qed

lemma challenge_of_honest_proof:
  assumes "suite_ok S"
  shows "challenge S u xc (Mul S x (Base S)) (Mul S x (u + xc)) e (si + e * x)
           = Hash S [Mul S x (u + xc), Mul S si (u + xc), Mul S si (Base S)]"
  by (simp add: challenge_def Let_def commitment_recovered [OF assms])

lemma suite_ok_toy: "suite_ok toy"
  by (simp add: suite_ok_def toy_def algebra_simps)

subsection \<open>The handlers, case by case\<close>

lemma sdiv_nonneg_eq_div: "0 \<le> k \<Longrightarrow> k sdiv 3 = k div (3::int)"
  by (simp add: signed_divide_int_def sgn_if)

lemma getUI_Shared:
  "Shared ocs = Some sh \<Longrightarrow>
   getUI S ocs u xc
     = Inr (\<lparr> I = Index sh, V = Point_Mul S (Vsec sh) u + Point_Mul S (Vsec sh) xc \<rparr>, None)"
  by (simp add: getUI_def)

lemma getUI_no_error: "getUI S ocs u xc \<noteq> Inr (ui, Some err)"
  by (simp add: getUI_def split: option.splits)

text \<open>A refusal: the counter goes up, and the run fails as soon as it has reached
  \<open>len(o.Children()) - o.Threshold\<close>.\<close>

lemma reencryptReply_refusal:
  assumes "Ui rr = None"
  shows "reencryptReply S ocs rr =
           Inr (None,
                if Failures ocs + 1 \<ge> int (length (Children (TreeNodeInstance ocs))) - Threshold ocs
                then ocs\<lparr>Failures := Failures ocs + 1,
                         Reencrypted := Reencrypted ocs @ [False], finished := True\<rparr>
                else ocs\<lparr>Failures := Failures ocs + 1\<rparr>)"
  using assms by (simp add: reencryptReply_def Let_def Done_def send_Reencrypted_def)

text \<open>The loop over the replies changes nothing but \<open>Uis\<close>, and a reply whose hash
  differs changes nothing at all.\<close>

lemma verify_reply_Uis:
  assumes "verify_reply S ocs r = Inr ocs'"
  shows "\<exists>us. ocs' = ocs\<lparr>Uis := us\<rparr> \<and> length us = length (Uis ocs)"
proof -
  have same: "ocs = ocs\<lparr>Uis := Uis ocs\<rparr>"
    by simp
  from assms show ?thesis
    unfolding verify_reply_def
    by (auto split: option.splits if_splits intro: exI [of _ "Uis ocs"])
qed

lemma verify_replies_Uis:
  "verify_replies S ocs rs = Inr ocs' \<Longrightarrow> \<exists>us. ocs' = ocs\<lparr>Uis := us\<rparr> \<and> length us = length (Uis ocs)"
proof (induction rs arbitrary: ocs)
  case Nil
  then have "ocs' = ocs\<lparr>Uis := Uis ocs\<rparr>" by simp
  then show ?case by blast
next
  case (Cons r rs)
  from Cons.prems obtain mid where step: "verify_reply S ocs r = Inr mid"
    and rest: "verify_replies S mid rs = Inr ocs'"
    by (auto split: sum.splits)
  from verify_reply_Uis [OF step] obtain us where mid: "mid = ocs\<lparr>Uis := us\<rparr>" "length us = length (Uis ocs)"
    by blast
  from Cons.IH [OF rest] obtain vs where "ocs' = mid\<lparr>Uis := vs\<rparr>" "length vs = length (Uis mid)"
    by blast
  with mid have "ocs' = ocs\<lparr>Uis := vs\<rparr> \<and> length vs = length (Uis ocs)"
    by simp
  then show ?case by blast
qed

lemma verify_reply_invalid:
  assumes "U ocs = Some u" "Xc ocs = Some xc"
    and "Ui r = Some ui" "Ei r = Some ei" "Fi r = Some fi"
    and "challenge S u xc (Poly ocs (I ui)) (V ui) ei fi \<noteq> ei"
  shows "verify_reply S ocs r = Inr ocs"
  using assms by (simp add: verify_reply_def)

text \<open>
  A reply that carries a share never touches \<open>Failures\<close>. It is appended to \<open>replies\<close>,
  and the handler sends \<open>true\<close> exactly when the length of \<open>replies\<close> has reached
  \<open>Threshold - 1\<close>, whatever the loop accepted.
\<close>

lemma reencryptReply_share:
  assumes "Ui rr \<noteq> None"
    and "reencryptReply S ocs rr = Inr (err, ocs')"
  shows "Failures ocs' = Failures ocs
       \<and> replies ocs' = replies ocs @ [rr]
       \<and> (if int (length (replies ocs)) + 1 \<ge> Threshold ocs - 1
          then Reencrypted ocs' = Reencrypted ocs @ [True] \<and> finished ocs'
          else Reencrypted ocs' = Reencrypted ocs \<and> finished ocs' = finished ocs)"
proof (cases "int (length (replies ocs)) + 1 \<ge> Threshold ocs - 1")
  case False
  with assms show ?thesis
    by (auto simp: reencryptReply_def Let_def)
next
  case True
  let ?ocs2 = "ocs\<lparr>replies := replies ocs @ [rr],
                   Uis := replicate (length (Tree_List (TreeNodeInstance ocs))) None\<rparr>"
  from True assms obtain ui0 ocs4
    where loop: "verify_replies S (?ocs2\<lparr>Uis := (Uis ?ocs2)[0 := Some ui0]\<rparr>)
                   (replies ocs @ [rr]) = Inr ocs4"
      and res: "ocs' = Done (send_Reencrypted True ocs4)"
    by (auto simp: reencryptReply_def Let_def getUI_def split: option.splits if_splits sum.splits)
  from verify_replies_Uis [OF loop] obtain us where "ocs4 = ?ocs2\<lparr>Uis := us\<rparr>"
    by auto
  with res True show ?thesis
    by (simp add: Done_def send_Reencrypted_def)
qed

text \<open>Every send on \<open>Reencrypted\<close> comes with \<open>Done()\<close>, so a run sends at most once.\<close>

lemma reencryptReply_writes:
  assumes "reencryptReply S ocs rr = Inr (err, ocs')"
  shows "(Reencrypted ocs' = Reencrypted ocs \<and> finished ocs' = finished ocs)
       \<or> (\<exists>b. Reencrypted ocs' = Reencrypted ocs @ [b] \<and> finished ocs')"
proof (cases "Ui rr = None")
  case True
  from assms show ?thesis
    unfolding reencryptReply_refusal [OF True] by (auto split: if_splits)
next
  case False
  from reencryptReply_share [OF False assms] show ?thesis
    by (auto split: if_splits)
qed

lemma run_finished: "finished ocs \<Longrightarrow> run S ocs rrs = Inr ocs"
  by (induction rrs) simp_all

lemma run_writes_at_most_once:
  "run S ocs rrs = Inr ocs' \<Longrightarrow> \<not> finished ocs \<Longrightarrow>
   Reencrypted ocs' = Reencrypted ocs \<or> (\<exists>b. Reencrypted ocs' = Reencrypted ocs @ [b] \<and> finished ocs')"
proof (induction rrs arbitrary: ocs)
  case Nil
  then show ?case by simp
next
  case (Cons rr rrs)
  from Cons.prems obtain err mid where step: "reencryptReply S ocs rr = Inr (err, mid)"
    and rest: "run S mid rrs = Inr ocs'"
    by (auto split: sum.splits)
  show ?case
  proof (cases "finished mid")
    case True
    with rest have "ocs' = mid"
      by (simp add: run_finished)
    with reencryptReply_writes [OF step] True Cons.prems(2) show ?thesis
      by auto
  next
    case False
    with reencryptReply_writes [OF step] have "Reencrypted mid = Reencrypted ocs"
      by auto
    with Cons.IH [OF rest False] show ?thesis
      by simp
  qed
qed

subsection \<open>C7: the threshold of a new instance\<close>

text \<open>
  C7. A protocol instance created for a cluster of \<open>n\<close> nodes (the roster holds at
  least the node itself) has the threshold \<open>n - floor ((n - 1) / 3)\<close>.
\<close>

theorem NewOCS_Threshold:
  assumes "Roster_List n \<noteq> []"
    and "NewOCS n poly None = Inr ocs"
  shows "Threshold ocs = int (length (Roster_List n))
           - \<lfloor>(real (length (Roster_List n)) - 1) / 3\<rfloor>"
proof -
  let ?k = "int (length (Roster_List n)) - 1"
  from assms(1) have nonneg: "0 \<le> ?k"
    by (cases "Roster_List n") simp_all
  have "\<lfloor>(real (length (Roster_List n)) - 1) / 3\<rfloor> = \<lfloor>real_of_int ?k / real_of_int 3\<rfloor>"
    by simp
  also have "\<dots> = ?k div 3"
    by (rule floor_divide_of_int_eq)
  finally have fl: "\<lfloor>(real (length (Roster_List n)) - 1) / 3\<rfloor> = ?k div 3" .
  from assms(2) have "Threshold ocs = int (length (Roster_List n)) - ?k sdiv 3"
    by (auto simp: NewOCS_def Let_def)
  with nonneg fl show ?thesis
    by (simp add: sdiv_nonneg_eq_div)
qed

theorem NewOCS_Threshold_witness:
  "Roster_List (cluster 4) \<noteq> []
   \<and> NewOCS (cluster 4) toy_poly None
       = Inr (projr (NewOCS (cluster 4) toy_poly None) :: (int, int) OCS)
   \<and> Threshold (projr (NewOCS (cluster 4) toy_poly None) :: (int, int) OCS) = 3"
proof -
  have ne: "Roster_List (cluster 4) \<noteq> []"
    by (simp add: cluster_def)
  have eq: "NewOCS (cluster 4) toy_poly None
              = Inr (projr (NewOCS (cluster 4) toy_poly None) :: (int, int) OCS)"
    by (simp add: NewOCS_def)
  have "length (Roster_List (cluster 4)) = 4"
    by (simp add: cluster_def)
  with NewOCS_Threshold [OF ne eq] ne eq show ?thesis
    by simp
qed

subsection \<open>C8: an honestly generated proof verifies\<close>

text \<open>
  C8. Let \<open>x\<close> be a secret scalar whose public key share is \<open>x * Base\<close>, \<open>si\<close> a random
  scalar and \<open>u\<close>, \<open>xc\<close> points. For the share value \<open>x * (u + xc)\<close>, the challenge
  \<open>e = Hash [value, si * (u + xc), si * Base]\<close> and the response \<open>f = si + e * x\<close>, the
  scalar that the root recomputes from \<open>f * (u + xc) - e * value\<close> and
  \<open>f * Base - e * (x * Base)\<close> equals \<open>e\<close>: the share is accepted.
\<close>

theorem honest_proof_accepted:
  assumes "suite_ok S"
  shows "(let uiv = Mul S x (u + xc);
              e = Hash S [uiv, Mul S si (u + xc), Mul S si (Base S)];
              f = si + e * x
          in challenge S u xc (Mul S x (Base S)) uiv e f = e)"
  by (simp add: Let_def challenge_of_honest_proof [OF assms])

theorem honest_proof_accepted_witness:
  "suite_ok toy \<and> challenge toy 2 3 7 35 49 344 = 49"
  using honest_proof_accepted [OF suite_ok_toy, of 7 2 3 1] suite_ok_toy
  by (simp add: toy_def)

text \<open>
  The same for the handlers themselves: the reply that \<open>reencrypt\<close> sends at a node whose
  hook does not refuse passes the check of the root, which stores the share at the
  node's index.
\<close>

lemma reencrypt_reply_accepted:
  assumes ok: "suite_ok S"
    and sh: "Shared node = Some sh"
    and hook: "\<not> (case Verify node of Some v \<Rightarrow> \<not> v r | None \<Rightarrow> False)"
    and req: "rc_U r = Some u" "rc_Xc r = Some xc"
    and key: "Poly rt (Index sh) = Mul S (Vsec sh) (Base S)"
    and pts: "U rt = Some u" "Xc rt = Some xc"
    and idx: "0 \<le> Index sh" "Index sh < int (length (Uis rt))"
  shows "\<exists>ui ei fi.
           reencrypt S si perr node r
             = Inr (perr, Done (node\<lparr>outbox := outbox node @
                     [(ToParent, MsgReencryptReply
                         \<lparr> Ui = Some ui, Ei = Some ei, Fi = Some fi \<rparr>)]\<rparr>))
           \<and> verify_reply S rt \<lparr> Ui = Some ui, Ei = Some ei, Fi = Some fi \<rparr>
               = Inr (rt\<lparr>Uis := (Uis rt)[nat (Index sh) := Some ui]\<rparr>)"
proof -
  let ?w = "u + xc"
  let ?ui = "\<lparr> I = Index sh, V = Mul S (Vsec sh) ?w \<rparr>"
  let ?ei = "Hash S [V ?ui, Mul S si ?w, Mul S si (Base S)]"
  let ?fi = "si + ?ei * Vsec sh"
  from ok have dist: "Mul S (Vsec sh) u + Mul S (Vsec sh) xc = Mul S (Vsec sh) ?w"
    unfolding suite_ok_def by simp
  from hook have sent: "reencrypt S si perr node r
             = Inr (perr, Done (node\<lparr>outbox := outbox node @
                     [(ToParent, MsgReencryptReply
                         \<lparr> Ui = Some ?ui, Ei = Some ?ei, Fi = Some ?fi \<rparr>)]\<rparr>))"
    by (simp add: reencrypt_def getUI_Shared [OF sh] Point_Mul_def SendToParent_def sh req
        Let_def dist)
  have "challenge S u xc (Mul S (Vsec sh) (Base S)) (Mul S (Vsec sh) ?w) ?ei ?fi = ?ei"
    by (simp add: challenge_of_honest_proof [OF ok])
  with key pts idx
  have "verify_reply S rt \<lparr> Ui = Some ?ui, Ei = Some ?ei, Fi = Some ?fi \<rparr>
          = Inr (rt\<lparr>Uis := (Uis rt)[nat (Index sh) := Some ?ui]\<rparr>)"
    by (simp add: verify_reply_def)
  with sent show ?thesis
    by blast
qed

subsection \<open>C9: the policy hook of the coordinator\<close>

text \<open>
  C9. When the coordinator holds its share and the ciphertext point, and its policy hook
  is present and rejects the request, \<open>Start\<close> sends \<open>false\<close> on \<open>Reencrypted\<close>, closes
  the instance and returns an error; no message is broadcast.
\<close>

theorem Start_refused:
  assumes "Shared ocs = Some sh"
    and "U ocs = Some u"
    and "Verify ocs = Some v"
    and "\<not> v \<lparr> rc_U = Some u, rc_Xc = Xc ocs,
                rc_VerificationData = (if 0 < length (VerificationData ocs)
                                       then Some (VerificationData ocs) else None) \<rparr>"
  shows "Start send_err ocs
           = (Some ''refused to reencrypt'',
              ocs\<lparr>Reencrypted := Reencrypted ocs @ [False], finished := True\<rparr>)
       \<and> outbox (snd (Start send_err ocs)) = outbox ocs"
  using assms by (simp add: Start_def Let_def Done_def send_Reencrypted_def)

theorem Start_refused_witness:
  "Shared ((root 4)\<lparr>Verify := Some (\<lambda>rc. False)\<rparr>) = Some \<lparr> Index = 0, Vsec = 5 \<rparr>
   \<and> U ((root 4)\<lparr>Verify := Some (\<lambda>rc. False)\<rparr>) = Some 2
   \<and> Reencrypted (snd (Start (\<lambda>node. None) ((root 4)\<lparr>Verify := Some (\<lambda>rc. False)\<rparr>))) = [False]
   \<and> outbox (snd (Start (\<lambda>node. None) ((root 4)\<lparr>Verify := Some (\<lambda>rc. False)\<rparr>))) = []"
proof -
  let ?ocs = "(root 4)\<lparr>Verify := Some (\<lambda>rc. False)\<rparr>"
  have sh: "Shared ?ocs = Some \<lparr> Index = 0, Vsec = 5 \<rparr>"
    by (simp add: root_def)
  have u: "U ?ocs = Some 2"
    by (simp add: root_def)
  have v: "Verify ?ocs = Some (\<lambda>rc. False)"
    by simp
  have init: "Reencrypted ?ocs = [] \<and> outbox ?ocs = []"
    by (simp add: root_def NewOCS_def)
  from Start_refused [OF sh u v, of "\<lambda>node. None"] sh u init show ?thesis
    by simp
qed

subsection \<open>C10: a participant answers a request once\<close>

text \<open>
  C10 says that \<open>getUI\<close> never returns a non-nil error and that therefore, for every
  request received by a node whose secret share is set, the node sends exactly one reply
  to its parent. The second part fails for a request without the client's key: node 1
  of the small cluster has its share and no hook, \<open>getUI\<close> returns its share, and
  \<open>Point().Add(r.U, r.Xc)\<close> then panics before anything is sent.
\<close>

theorem reencrypt_without_Xc_counterexample:
  "Shared (participant 4 1) = Some \<lparr> Index = 1, Vsec = 7 \<rparr>
   \<and> Verify (participant 4 1) = None
   \<and> getUI toy (participant 4 1) (Some 2) None = Inr (\<lparr> I = 1, V = 21 \<rparr>, None)
   \<and> reencrypt toy 1 None (participant 4 1) (request\<lparr>rc_Xc := None\<rparr>) = Inl NilDereference"
  by (simp add: reencrypt_def getUI_def Point_Mul_def toy_def request_def toy_poly_def
      participant_def NewOCS_def)

text \<open>
  C10, amended. \<open>getUI\<close> never returns a non-nil error. At a node whose secret share is
  set it returns a share, so the handler of a request never takes its error branch; and
  for every request that carries both points \<open>U\<close> and \<open>Xc\<close>, or that the node's policy
  hook refuses, the handler sends exactly one message to its parent, which is either
  the empty refusal or a share with its proof, and returns what the transport returned.
\<close>

theorem reencrypt_one_reply:
  assumes sh: "Shared ocs = Some sh"
    and req: "(\<exists>u xc. rc_U r = Some u \<and> rc_Xc r = Some xc)
              \<or> (\<exists>v. Verify ocs = Some v \<and> \<not> v r)"
  shows "(\<forall>ocs' u xc ui err. getUI S ocs' u xc \<noteq> Inr (ui, Some err))
       \<and> (\<exists>ui. getUI S ocs (rc_U r) (rc_Xc r) = Inr (ui, None))
       \<and> (\<exists>rep. reencrypt S si perr ocs r
                  = Inr (perr, Done (ocs\<lparr>outbox := outbox ocs @ [(ToParent, MsgReencryptReply rep)]\<rparr>))
              \<and> (rep = \<lparr> Ui = None, Ei = None, Fi = None \<rparr>
                 \<or> (\<exists>ui ei fi. rep = \<lparr> Ui = Some ui, Ei = Some ei, Fi = Some fi \<rparr>)))"
proof (intro conjI)
  show "\<forall>ocs' u xc ui err. getUI S ocs' u xc \<noteq> Inr (ui, Some err)"
    by (simp add: getUI_no_error)
  show "\<exists>ui. getUI S ocs (rc_U r) (rc_Xc r) = Inr (ui, None)"
    by (simp add: getUI_Shared [OF sh])
  show "\<exists>rep. reencrypt S si perr ocs r
                  = Inr (perr, Done (ocs\<lparr>outbox := outbox ocs @ [(ToParent, MsgReencryptReply rep)]\<rparr>))
              \<and> (rep = \<lparr> Ui = None, Ei = None, Fi = None \<rparr>
                 \<or> (\<exists>ui ei fi. rep = \<lparr> Ui = Some ui, Ei = Some ei, Fi = Some fi \<rparr>))"
  proof (cases "case Verify ocs of Some v \<Rightarrow> \<not> v r | None \<Rightarrow> False")
    case True
    then have "reencrypt S si perr ocs r
                 = Inr (perr, Done (ocs\<lparr>outbox := outbox ocs @
                     [(ToParent, MsgReencryptReply \<lparr> Ui = None, Ei = None, Fi = None \<rparr>)]\<rparr>))"
      by (simp add: reencrypt_def getUI_Shared [OF sh] SendToParent_def)
    then show ?thesis
      by blast
  next
    case False
    with req obtain u xc where pts: "rc_U r = Some u" "rc_Xc r = Some xc"
      by auto
    let ?ui = "\<lparr> I = Index sh, V = Mul S (Vsec sh) u + Mul S (Vsec sh) xc \<rparr>"
    let ?ei = "Hash S [V ?ui, Mul S si (u + xc), Mul S si (Base S)]"
    from False have "reencrypt S si perr ocs r
                 = Inr (perr, Done (ocs\<lparr>outbox := outbox ocs @
                     [(ToParent, MsgReencryptReply
                         \<lparr> Ui = Some ?ui, Ei = Some ?ei, Fi = Some (si + ?ei * Vsec sh) \<rparr>)]\<rparr>))"
      by (simp add: reencrypt_def getUI_Shared [OF sh] Point_Mul_def SendToParent_def sh pts
          Let_def)
    then show ?thesis
      by blast
  qed
qed

theorem reencrypt_one_reply_witness:
  "Shared (participant 4 1) = Some \<lparr> Index = 1, Vsec = 7 \<rparr>
   \<and> rc_U request = Some 2 \<and> rc_Xc request = Some 3
   \<and> reencrypt toy 1 None (participant 4 1) request
       = Inr (None, Done ((participant 4 1)\<lparr>outbox := [(ToParent, MsgReencryptReply reply1)]\<rparr>))"
proof -
  have sh: "Shared (participant 4 1) = Some \<lparr> Index = 1, Vsec = 7 \<rparr>"
    by (simp add: participant_def toy_poly_def)
  have pts: "rc_U request = Some 2 \<and> rc_Xc request = Some 3"
    by (simp add: request_def)
  then have req: "(\<exists>u xc. rc_U request = Some u \<and> rc_Xc request = Some xc)
                  \<or> (\<exists>v. Verify (participant 4 1) = Some v \<and> \<not> v request)"
    by simp
  from reencrypt_one_reply [OF sh req, of toy 1 None] obtain rep
    where "reencrypt toy 1 None (participant 4 1) request
             = Inr (None, Done ((participant 4 1)\<lparr>outbox := outbox (participant 4 1) @ [(ToParent, MsgReencryptReply rep)]\<rparr>))"
    by blast
  moreover have "reencrypt toy 1 None (participant 4 1) request
       = Inr (None, Done ((participant 4 1)\<lparr>outbox := [(ToParent, MsgReencryptReply reply1)]\<rparr>))"
    by (simp add: reencrypt_def getUI_def Point_Mul_def sh toy_def request_def reply1_def
        SendToParent_def Let_def toy_poly_def participant_def NewOCS_def)
  ultimately show ?thesis using sh pts by simp
qed

subsection \<open>The failure budget\<close>

text \<open>
  The replies used below are the ones the handler \<open>reencrypt\<close> sends at the nodes 2 and
  3 of the small cluster (the reply of node 1 appears with C10).
\<close>

lemma replies_of_participants:
  "reencrypt toy 2 None (participant 4 2) request
     = Inr (None, Done ((participant 4 2)\<lparr>outbox := [(ToParent, MsgReencryptReply reply2)]\<rparr>))"
  "reencrypt toy 3 None (participant 4 3) request
     = Inr (None, Done ((participant 4 3)\<lparr>outbox := [(ToParent, MsgReencryptReply reply3)]\<rparr>))"
  by (simp_all add: reencrypt_def getUI_def Point_Mul_def toy_def request_def reply2_def
      reply3_def SendToParent_def Let_def toy_poly_def participant_def NewOCS_def)

text \<open>
  C3 says that the run fails exactly when the number of refusals becomes strictly
  greater than the number of children minus the threshold, so that a cluster of \<open>n\<close>
  nodes tolerates \<open>floor ((n - 1) / 3)\<close> refusals. The code compares with \<open>>=\<close>. At the
  root of seven nodes (six children, threshold 5, two refusals to tolerate) the first
  refusal makes the counter 1, which is not greater than \<open>6 - 5\<close>, and the handler
  sends \<open>false\<close> and closes the instance.
\<close>

theorem first_refusal_of_seven:
  "(case reencryptReply toy (root 7) refusal of
      Inr (err, ocs') \<Rightarrow>
        Threshold ocs' = 5 \<and> length (Children (TreeNodeInstance ocs')) = 6
        \<and> Failures ocs' = 1 \<and> Reencrypted ocs' = [False] \<and> finished ocs'
    | Inl a \<Rightarrow> False)"
  by code_simp

text \<open>
  C2 says that with four nodes and threshold 3 one refusal and two valid replies end
  in \<open>true\<close> with three shares, in every arrival order. The replies of nodes 1 and 2
  pass the check, but the run ends in \<open>true\<close> with three shares only when both arrive
  before the refusal. A refusal that arrives earlier ends the run with \<open>false\<close> and no
  share, already in the handler call that receives it.
\<close>

theorem one_refusal_of_four:
  "Threshold (root 4) = 3
   \<and> challenge toy 2 3 (toy_poly 1) 35 49 344 = 49
   \<and> challenge toy 2 3 (toy_poly 2) 45 73 659 = 73
   \<and> (case reencryptReply toy (root 4) refusal of
        Inr (err, ocs') \<Rightarrow> Failures ocs' = 1 \<and> Reencrypted ocs' = [False] \<and> finished ocs'
      | Inl a \<Rightarrow> False)
   \<and> (case run toy (root 4) [refusal, reply1, reply2] of
        Inr ocs' \<Rightarrow> Reencrypted ocs' = [False] \<and> accepted ocs' = []
      | Inl a \<Rightarrow> False)
   \<and> (case run toy (root 4) [reply1, refusal, reply2] of
        Inr ocs' \<Rightarrow> Reencrypted ocs' = [False] \<and> accepted ocs' = []
      | Inl a \<Rightarrow> False)
   \<and> (case run toy (root 4) [reply1, reply2, refusal] of
        Inr ocs' \<Rightarrow> Reencrypted ocs' = [True] \<and> length (accepted ocs') = 3
      | Inl a \<Rightarrow> False)"
  by code_simp

text \<open>
  C5 says that the outcome of a run does not depend on the order in which a given
  collection of replies arrives, and that it is written at most once. The second part
  is \<open>run_writes_at_most_once\<close>. The first fails: the replies of nodes 2 and 3 and one
  refusal give \<open>true\<close> in one order and \<open>false\<close> in the reverse order.
\<close>

theorem outcome_depends_on_arrival_order:
  "(case (run toy (root 4) [reply2, reply3, refusal],
          run toy (root 4) (rev [reply2, reply3, refusal])) of
      (Inr ocs1, Inr ocs2) \<Rightarrow> Reencrypted ocs1 = [True] \<and> Reencrypted ocs2 = [False]
    | _ \<Rightarrow> False)"
  by code_simp

subsection \<open>The quorum counts replies\<close>

text \<open>
  C1 says that \<open>true\<close> is published only when at least \<open>Threshold - 1\<close> shares of other
  nodes have passed the check, replies that fail it not counting. The code compares the
  number of replies with \<open>Threshold - 1\<close> before it checks any of them. With four nodes,
  two replies that both fail the check end the run in \<open>true\<close>, and the only share
  published is the root's own.
\<close>

theorem forged_replies_reach_quorum:
  "challenge toy 2 3 (toy_poly 2) 46 73 659 \<noteq> 73
   \<and> challenge toy 2 3 (toy_poly 3) 55 97 1071 \<noteq> 97
   \<and> (case run toy (root 4) [tampered2, tampered3] of
        Inr ocs' \<Rightarrow> Threshold ocs' = 3 \<and> Reencrypted ocs' = [True]
                    \<and> accepted ocs' = [\<lparr> I = 0, V = 25 \<rparr>]
      | Inl a \<Rightarrow> False)"
  by code_simp

text \<open>
  C4 says that a reply whose proof fails is left out of the published shares, does not
  increment \<open>Failures\<close>, and counts neither as success nor as failure, the run going on.
  The first two hold (\<open>verify_reply_invalid\<close>, \<open>reencryptReply_share\<close>). The last does
  not: after the valid reply of node 1 the run of four nodes is still open, and the
  forged reply of node 2 is the one that completes it with \<open>true\<close>, with two shares
  published where the threshold is 3.
\<close>

theorem forged_reply_ends_run:
  "challenge toy 2 3 (toy_poly 2) 46 73 659 \<noteq> 73
   \<and> (case run toy (root 4) [reply1] of
        Inr mid \<Rightarrow>
          Reencrypted mid = [] \<and> \<not> finished mid
          \<and> (case reencryptReply toy mid tampered2 of
               Inr (err, ocs') \<Rightarrow>
                 Reencrypted ocs' = [True] \<and> finished ocs' \<and> Failures ocs' = 0
                 \<and> accepted ocs' = [\<lparr> I = 0, V = 25 \<rparr>, \<lparr> I = 1, V = 35 \<rparr>]
             | Inl a \<Rightarrow> False)
      | Inl a \<Rightarrow> False)"
  by code_simp

text \<open>
  C6 says that a second reply for an index is a no-op: the published shares do not count
  the index twice and the duplicate does not help to reach the quorum. The slot of the
  index is indeed written twice with the same share, so two shares are published. But
  the duplicate is appended to \<open>replies\<close>, and with four nodes the reply of node 1
  received twice completes the run with \<open>true\<close>.
\<close>

theorem duplicate_reply_reaches_quorum:
  "(case run toy (root 4) [reply1] of
        Inr mid \<Rightarrow>
          Reencrypted mid = [] \<and> \<not> finished mid
          \<and> (case reencryptReply toy mid reply1 of
               Inr (err, ocs') \<Rightarrow>
                 Threshold ocs' = 3 \<and> Reencrypted ocs' = [True] \<and> finished ocs'
                 \<and> accepted ocs' = [\<lparr> I = 0, V = 25 \<rparr>, \<lparr> I = 1, V = 35 \<rparr>]
             | Inl a \<Rightarrow> False)
      | Inl a \<Rightarrow> False)"
  by code_simp

end
